theory Spec2Isabelle
  imports Main "HOL-Library.AList"
begin

section \<open>Paths\<close>

text \<open>
  The script handles every path through \<^verbatim>\<open>pathlib.Path\<close>. The model is the POSIX flavour:
  a path is its root (\<open>''''\<close>, \<open>''/''\<close> or \<open>''//''\<close>) and the list of its components.
  Equality of paths is equality of root and components, as \<^verbatim>\<open>PurePosixPath.__eq__\<close> has it.
\<close>

datatype path = PurePath (root: string) (parts: "string list")

text \<open>\<^verbatim>\<open>str.split('/')\<close>: the pieces between the separators, empty pieces included.\<close>

fun split_sep :: "string \<Rightarrow> string list" where
  "split_sep [] = [[]]"
| "split_sep (c # cs) =
     (if c = CHR ''/'' then [] # split_sep cs
      else (case split_sep cs of [] \<Rightarrow> [[c]] | w # ws \<Rightarrow> (c # w) # ws))"

text \<open>
  \<^verbatim>\<open>posixpath.splitroot\<close>: no leading slash, no root; exactly two leading slashes are kept as
  the root \<open>''//''\<close>; otherwise the root is one slash.
\<close>

definition splitroot :: "string \<Rightarrow> string \<times> string" where
  "splitroot p =
     (if take 1 p \<noteq> ''/'' then ('''', p)
      else if take 1 (drop 1 p) \<noteq> ''/'' \<or> take 1 (drop 2 p) = ''/'' then (''/'', drop 1 p)
      else (take 2 p, drop 2 p))"

text \<open>\<^verbatim>\<open>Path(s)\<close>: empty components and \<open>''.''\<close> components are dropped.\<close>

definition Path :: "string \<Rightarrow> path" where
  "Path s = (case splitroot s of (r, rel) \<Rightarrow>
               PurePath r (filter (\<lambda>x. x \<noteq> [] \<and> x \<noteq> ''.'') (split_sep rel)))"

text \<open>\<^verbatim>\<open>'/'.join(parts)\<close>\<close>

fun join_sep :: "string list \<Rightarrow> string" where
  "join_sep [] = []"
| "join_sep [x] = x"
| "join_sep (x # y # ys) = x @ CHR ''/'' # join_sep (y # ys)"

text \<open>\<^verbatim>\<open>str(path)\<close>: root and joined components, or \<open>''.''\<close> for the empty path.\<close>

definition path_str :: "path \<Rightarrow> string" where
  "path_str p = (let s = root p @ join_sep (parts p) in if s = [] then ''.'' else s)"

text \<open>\<^verbatim>\<open>path.parent\<close>: a path without components is its own parent.\<close>

definition parent :: "path \<Rightarrow> path" where
  "parent p = (if parts p = [] then p else PurePath (root p) (butlast (parts p)))"

text \<open>
  \<^verbatim>\<open>path.parents\<close>: the proper ancestors, nearest first; the path itself is not among them.
\<close>

definition parents :: "path \<Rightarrow> path list" where
  "parents p = map (\<lambda>k. PurePath (root p) (take k (parts p))) (rev [0..<length (parts p)])"

text \<open>\<^verbatim>\<open>path.name\<close>: the last component, or the empty string.\<close>

definition name :: "path \<Rightarrow> string" where
  "name p = (if parts p = [] then [] else last (parts p))"

text \<open>\<^verbatim>\<open>str.rfind\<close> for one character; \<open>None\<close> stands for Python's \<open>-1\<close>.\<close>

fun rfind :: "char \<Rightarrow> string \<Rightarrow> nat option" where
  "rfind c [] = None"
| "rfind c (x # xs) =
     (case rfind c xs of
        Some i \<Rightarrow> Some (Suc i)
      | None \<Rightarrow> if x = c then Some 0 else None)"

text \<open>
  \<^verbatim>\<open>path.stem\<close>: the name without its last suffix. A dot at the first or at the last position
  of the name does not start a suffix.
\<close>

definition stem :: "path \<Rightarrow> string" where
  "stem p =
     (let n = name p in
      case rfind (CHR ''.'') n of
        None \<Rightarrow> n
      | Some i \<Rightarrow> if 0 < i \<and> i < length n - 1 then take i n else n)"

section \<open>Remote records and command line\<close>

record asset =
  asset_id :: string
  libraryId :: string
  originalPath :: string

record library_rec =
  library_id :: string
  library_name :: string

record album_rec =
  album_rec_id :: string
  albumName :: string

text \<open>
  The options the reconciliation reads: \<open>json\<close> is the path of the mapping file when one is
  given, \<open>library\<close> the list of library names, \<open>skip_paths\<close> the strings given after
  \<^verbatim>\<open>--skip-paths\<close> (argparse turns each into a \<^verbatim>\<open>Path\<close>).
\<close>

record args =
  json :: "string option"
  library :: "string list option"
  folder_layout :: bool
  skip_paths :: "string list"
  clean_update :: bool
  skip_existing :: bool

record skip_table =
  direct :: "path list"
  recursive :: "path list"

text \<open>Lines 179 to 184: a skip path whose stem is \<open>''*''\<close> stands for its parent, recursively.\<close>

fun build_skip_paths :: "path list \<Rightarrow> skip_table \<Rightarrow> skip_table" where
  "build_skip_paths [] sp = sp"
| "build_skip_paths (p # ps) sp =
     (if stem p = ''*''
      then build_skip_paths ps (sp\<lparr>recursive := recursive sp @ [parent p]\<rparr>)
      else build_skip_paths ps (sp\<lparr>direct := direct sp @ [p]\<rparr>))"

definition skip_paths_of :: "args \<Rightarrow> skip_table" where
  "skip_paths_of a = build_skip_paths (map Path (skip_paths a)) \<lparr>direct = [], recursive = []\<rparr>"

section \<open>Classifier\<close>

text \<open>
  A Python dict is an association list in insertion order. The idiom
  \<^verbatim>\<open>try: d[k] except: d[k] = set() finally: d[k].add(i)\<close> keeps the position of a key that is
  already there and puts a new key last.
\<close>

fun add_to_bin :: "'k \<Rightarrow> string \<Rightarrow> ('k \<times> string set) list \<Rightarrow> ('k \<times> string set) list" where
  "add_to_bin k i [] = [(k, {i})]"
| "add_to_bin k i ((k', s) # rest) =
     (if k' = k then (k', insert i s) # rest else (k', s) # add_to_bin k i rest)"

text \<open>Lines 270 to 285, the folder-mode loop over the assets.\<close>

fun folder_classify ::
  "string list \<Rightarrow> skip_table \<Rightarrow> asset list \<Rightarrow> (path \<times> string set) list \<Rightarrow> (path \<times> string set) list"
where
  "folder_classify library_filter sp [] folder_assets = folder_assets"
| "folder_classify library_filter sp (a # as) folder_assets =
     (if libraryId a \<notin> set library_filter then folder_classify library_filter sp as folder_assets
      else let p = parent (Path (originalPath a)) in
        if p \<in> set (direct sp) then folder_classify library_filter sp as folder_assets
        else if [q \<leftarrow> parents p. q \<in> set (recursive sp)] \<noteq> []
          then folder_classify library_filter sp as folder_assets
        else folder_classify library_filter sp as (add_to_bin p (asset_id a) folder_assets))"

text \<open>Lines 313 to 329, the library-mode loop; each bin keeps its folders and its asset ids.\<close>

record lib_items =
  paths :: "path set"
  ids :: "string set"

fun add_to_lib :: "string \<Rightarrow> path \<Rightarrow> string \<Rightarrow> (string \<times> lib_items) list \<Rightarrow> (string \<times> lib_items) list" where
  "add_to_lib k p i [] = [(k, \<lparr>paths = {p}, ids = {i}\<rparr>)]"
| "add_to_lib k p i ((k', it) # rest) =
     (if k' = k then (k', \<lparr>paths = insert p (paths it), ids = insert i (ids it)\<rparr>) # rest
      else (k', it) # add_to_lib k p i rest)"

fun library_classify ::
  "string list \<Rightarrow> skip_table \<Rightarrow> asset list \<Rightarrow> (string \<times> lib_items) list \<Rightarrow> (string \<times> lib_items) list"
where
  "library_classify library_filter sp [] name_assets = name_assets"
| "library_classify library_filter sp (a # as) name_assets =
     (if libraryId a \<notin> set library_filter then library_classify library_filter sp as name_assets
      else let p = parent (Path (originalPath a)) in
        if p \<in> set (direct sp) then library_classify library_filter sp as name_assets
        else if [q \<leftarrow> parents p. q \<in> set (recursive sp)] \<noteq> []
          then library_classify library_filter sp as name_assets
        else library_classify library_filter sp as
               (add_to_lib (libraryId a) p (asset_id a) name_assets))"

section \<open>JSON documents, errors, the remote service\<close>

text \<open>
  What \<^verbatim>\<open>json.load\<close> returns. An object keeps its items in insertion order, as a Python
  dict does.
\<close>

datatype jvalue =
  JNull | JBool bool | JNum int | JStr string | JArr "jvalue list" | JObj "(string \<times> jvalue) list"

datatype py_error =
  SystemExit "string option" | JSONDecodeError | AttributeError | TypeError | KeyError | IndexError

text \<open>\<^verbatim>\<open>d[k] = v\<close>: only a dict takes a string key.\<close>

definition set_item :: "string \<Rightarrow> jvalue \<Rightarrow> jvalue \<Rightarrow> py_error + jvalue" where
  "set_item k v d = (case d of JObj al \<Rightarrow> Inr (JObj (AList.update k v al)) | _ \<Rightarrow> Inl TypeError)"

text \<open>\<^verbatim>\<open>d.update({k: v})\<close>: only a dict has the method.\<close>

definition dict_update :: "string \<Rightarrow> jvalue \<Rightarrow> jvalue \<Rightarrow> py_error + jvalue" where
  "dict_update k v d =
     (case d of JObj al \<Rightarrow> Inr (JObj (AList.update k v al)) | _ \<Rightarrow> Inl AttributeError)"

text \<open>\<^verbatim>\<open>d[k]\<close>\<close>

definition get_item :: "jvalue \<Rightarrow> string \<Rightarrow> py_error + jvalue" where
  "get_item d k =
     (case d of
        JObj al \<Rightarrow> (case map_of al k of None \<Rightarrow> Inl KeyError | Some v \<Rightarrow> Inr v)
      | _ \<Rightarrow> Inl TypeError)"

text \<open>
  \<^verbatim>\<open>d.get(k, None)\<close>: a missing key and a stored \<^verbatim>\<open>null\<close> both give Python's \<^verbatim>\<open>None\<close>,
  here \<open>None\<close>.
\<close>

definition dict_get :: "jvalue \<Rightarrow> string \<Rightarrow> py_error + jvalue option" where
  "dict_get d k =
     (case d of
        JObj al \<Rightarrow> Inr (case map_of al k of Some JNull \<Rightarrow> None | r \<Rightarrow> r)
      | _ \<Rightarrow> Inl AttributeError)"

text \<open>
  The remote album service is outside the script. A response is either ok, with the decoded
  body the script reads, or not ok, with status code, reason and the \<^verbatim>\<open>message\<close> field of
  the error body, which the server sends as a string or as a list of strings.
\<close>

datatype message = MStr string | MList "string list"

datatype 'a response = Ok 'a | NotOk nat string message

datatype request =
  GetLibraries
| GetAlbums
| GetAssets
| PostAlbum string "string set"
| PutAssets string "string set"
| GetAlbum string
| DeleteAssets string "string set"

text \<open>
  The service as a parameter: one function for each endpoint, over a server state of any type.
  The body of an album's detail is read as the set of its asset ids, the body of an add or
  remove request as the list of the per-member success flags.
\<close>

record 'srv remote =
  get_libraries :: "'srv \<Rightarrow> library_rec list \<times> 'srv"
  get_albums :: "'srv \<Rightarrow> album_rec list \<times> 'srv"
  get_assets :: "'srv \<Rightarrow> asset list \<times> 'srv"
  post_album :: "'srv \<Rightarrow> string \<Rightarrow> string set \<Rightarrow> string response \<times> 'srv"
  put_assets :: "'srv \<Rightarrow> string \<Rightarrow> string set \<Rightarrow> bool list response \<times> 'srv"
  get_album :: "'srv \<Rightarrow> string \<Rightarrow> string set response \<times> 'srv"
  delete_assets :: "'srv \<Rightarrow> string \<Rightarrow> string set \<Rightarrow> bool list response \<times> 'srv"

text \<open>What the reconciler prints.\<close>

datatype event =
  UnableToFindLibrary string
| AlreadyExistsSkipping string
| CreatedAlbum string nat
| CreationFailed string nat string
| UpToDate string
| AddedAssets nat string
| UpdatingFailed string nat string
| ClearingFailed string nat string
| ClearedAssets nat string
| PrintedText string
| PrintedMessage message

datatype json_file = NoParent | Absent | Present "jvalue option"

text \<open>
  The state of a run: the server, the requests sent so far, the lines printed so far, the
  global \<^verbatim>\<open>json_output\<close> and the mapping file (\<open>Present None\<close> is a file that is not JSON).
\<close>

record 'srv state =
  server :: 'srv
  sent :: "request list"
  printed :: "event list"
  json_output :: jvalue
  stored :: json_file

type_synonym 'srv outcome = "(py_error \<times> 'srv state) + 'srv state"

definition say :: "event \<Rightarrow> 'srv state \<Rightarrow> 'srv state" where
  "say e st = st\<lparr>printed := printed st @ [e]\<rparr>"

definition sending :: "request \<Rightarrow> 'srv \<Rightarrow> 'srv state \<Rightarrow> 'srv state" where
  "sending q srv' st = st\<lparr>server := srv', sent := sent st @ [q]\<rparr>"

section \<open>Album reconciler\<close>

text \<open>The counting loop of lines 216 to 219 and 254 to 257.\<close>

fun count_success :: "bool list \<Rightarrow> nat \<Rightarrow> nat" where
  "count_success [] count = count"
| "count_success (a # as) count = count_success as (if a then count + 1 else count)"

text \<open>\<^verbatim>\<open>r.json()["message"][0]\<close>: the first string of a list, the first character of a string.\<close>

definition message_first :: "message \<Rightarrow> py_error + string" where
  "message_first m =
     (case m of
        MStr [] \<Rightarrow> Inl IndexError
      | MStr (c # _) \<Rightarrow> Inr [c]
      | MList [] \<Rightarrow> Inl IndexError
      | MList (x # _) \<Rightarrow> Inr x)"

text \<open>Lines 230 to 232: only a list is indexed.\<close>

definition message_text :: "message \<Rightarrow> py_error + string" where
  "message_text m =
     (case m of
        MStr s \<Rightarrow> Inr s
      | MList [] \<Rightarrow> Inl IndexError
      | MList (x # _) \<Rightarrow> Inr x)"

definition create_album ::
  "'srv remote \<Rightarrow> args \<Rightarrow> string list \<Rightarrow> string \<Rightarrow> string set \<Rightarrow> string \<Rightarrow> 'srv state \<Rightarrow> 'srv outcome"
where
  "create_album R a album_names album_name asset_ids update_key st =
     (if skip_existing a \<and> json a = None \<and> album_name \<in> set album_names
      then Inr (say (AlreadyExistsSkipping album_name) st)
      else case post_album R (server st) album_name asset_ids of (r, srv') \<Rightarrow>
        let st1 = sending (PostAlbum album_name asset_ids) srv' st in
        (case r of
           Ok new_id \<Rightarrow>
             let st2 = say (CreatedAlbum album_name (card asset_ids)) st1 in
             if json a \<noteq> None
             then (case dict_update update_key (JStr new_id) (json_output st2) of
                     Inl e \<Rightarrow> Inl (e, st2)
                   | Inr out \<Rightarrow> Inr (st2\<lparr>json_output := out\<rparr>))
             else Inr st2
         | NotOk status_code reason msg \<Rightarrow>
             let st2 = say (CreationFailed album_name status_code reason) st1 in
             (case message_first msg of
                Inl e \<Rightarrow> Inl (e, st2)
              | Inr s \<Rightarrow> Inr (say (PrintedText s) st2))))"

definition update_album ::
  "'srv remote \<Rightarrow> args \<Rightarrow> string list \<Rightarrow> string \<Rightarrow> string set \<Rightarrow> string \<Rightarrow> 'srv state \<Rightarrow> 'srv outcome"
where
  "update_album R a album_ids album_name asset_ids album_id st =
     (if skip_existing a \<and> album_id \<in> set album_ids
      then Inr (say (AlreadyExistsSkipping album_name) st)
      else case put_assets R (server st) album_id asset_ids of (r, srv') \<Rightarrow>
        let st1 = sending (PutAssets album_id asset_ids) srv' st in
        (case r of
           Ok flags \<Rightarrow>
             let count = count_success flags 0 in
             if count = 0 then Inr (say (UpToDate album_name) st1)
             else Inr (say (AddedAssets count album_name) st1)
         | NotOk status_code reason msg \<Rightarrow>
             let st2 = say (UpdatingFailed album_name status_code reason) st1 in
             (case message_text msg of
                Inl e \<Rightarrow> Inl (e, st2)
              | Inr s \<Rightarrow> Inr (say (PrintedText s) st2))))"

definition clean_album ::
  "'srv remote \<Rightarrow> string \<Rightarrow> string set \<Rightarrow> string \<Rightarrow> 'srv state \<Rightarrow> 'srv state"
where
  "clean_album R album_name asset_ids album_id st =
     (case get_album R (server st) album_id of (r, srv') \<Rightarrow>
        let st1 = sending (GetAlbum album_id) srv' st in
        (case r of
           NotOk status_code reason msg \<Rightarrow>
             say (PrintedMessage msg) (say (ClearingFailed album_name status_code reason) st1)
         | Ok album_assets \<Rightarrow>
             let removal_assets = album_assets - asset_ids in
             (case delete_assets R (server st1) album_id removal_assets of (r2, srv2) \<Rightarrow>
                let st2 = sending (DeleteAssets album_id removal_assets) srv2 st1 in
                (case r2 of
                   Ok flags \<Rightarrow>
                     let count = count_success flags 0 in
                     if count \<noteq> 0 then say (ClearedAssets count album_name) st2 else st2
                 | NotOk status_code reason msg \<Rightarrow> st2))))"

text \<open>
  The body of both reconcile loops (lines 291 to 306 and 335 to 350), which differ only in the
  layout table they read: \<open>layout\<close> is \<^verbatim>\<open>json_folder_layout\<close> in folder mode and
  \<^verbatim>\<open>json_name_layout\<close> in library mode. The \<^verbatim>\<open>try\<close> around the lookup swallows every error.
  The test \<^verbatim>\<open>album_id in album_ids\<close> compares with strings, so only a string can pass it.
\<close>

definition reconcile_bin ::
  "'srv remote \<Rightarrow> args \<Rightarrow> string list \<Rightarrow> string list \<Rightarrow> jvalue option \<Rightarrow>
   string \<Rightarrow> string set \<Rightarrow> string \<Rightarrow> 'srv state \<Rightarrow> 'srv outcome"
where
  "reconcile_bin R a album_names album_ids layout album_name asset_ids update_key st =
     (case set_item update_key (JObj []) (json_output st) of
        Inl e \<Rightarrow> Inl (e, st)
      | Inr out \<Rightarrow>
          let st0 = st\<lparr>json_output := out\<rparr>;
              create = create_album R a album_names album_name asset_ids update_key st0
          in
          (case layout of
             None \<Rightarrow> create
           | Some table \<Rightarrow>
               (case get_item table update_key of
                  Inl e \<Rightarrow> create
                | Inr (JStr album_id) \<Rightarrow>
                    if album_id \<in> set album_ids
                    then
                      let st1 = (if clean_update a
                                 then clean_album R album_name asset_ids album_id st0 else st0)
                      in
                      (case dict_update update_key (JStr album_id) (json_output st1) of
                         Inl e \<Rightarrow> Inl (e, st1)
                       | Inr out1 \<Rightarrow>
                           update_album R a album_ids album_name asset_ids album_id
                             (st1\<lparr>json_output := out1\<rparr>))
                    else create
                | Inr other \<Rightarrow> create)))"

text \<open>Lines 287 to 306: the bins in the order of the dict.\<close>

fun folder_reconcile ::
  "'srv remote \<Rightarrow> args \<Rightarrow> string list \<Rightarrow> string list \<Rightarrow> jvalue option \<Rightarrow>
   (path \<times> string set) list \<Rightarrow> 'srv state \<Rightarrow> 'srv outcome"
where
  "folder_reconcile R a album_names album_ids layout [] st = Inr st"
| "folder_reconcile R a album_names album_ids layout ((p, path_items) # rest) st =
     (case reconcile_bin R a album_names album_ids layout (stem p) path_items (path_str p) st of
        Inl e \<Rightarrow> Inl e
      | Inr st' \<Rightarrow> folder_reconcile R a album_names album_ids layout rest st')"

text \<open>\<^verbatim>\<open>next((l["name"] for l in libraries if l["id"] == lib_id), "")\<close>\<close>

fun name_of_library :: "library_rec list \<Rightarrow> string \<Rightarrow> string" where
  "name_of_library [] lib_id = []"
| "name_of_library (l # ls) lib_id =
     (if library_id l = lib_id then library_name l else name_of_library ls lib_id)"

text \<open>Lines 331 to 350.\<close>

fun library_reconcile ::
  "'srv remote \<Rightarrow> args \<Rightarrow> library_rec list \<Rightarrow> string list \<Rightarrow> string list \<Rightarrow> jvalue option \<Rightarrow>
   (string \<times> lib_items) list \<Rightarrow> 'srv state \<Rightarrow> 'srv outcome"
where
  "library_reconcile R a libraries album_names album_ids layout [] st = Inr st"
| "library_reconcile R a libraries album_names album_ids layout ((lib_id, items) # rest) st =
     (case reconcile_bin R a album_names album_ids layout
             (name_of_library libraries lib_id) (ids items) lib_id st of
        Inl e \<Rightarrow> Inl e
      | Inr st' \<Rightarrow> library_reconcile R a libraries album_names album_ids layout rest st')"

section \<open>Mapping store and the whole run\<close>

text \<open>
  Lines 134 to 143. \<open>old_json_data\<close> is \<open>None\<close> when the Python variable was never bound.
\<close>

record loaded =
  old_json_data :: "jvalue option"
  json_folder_layout :: "jvalue option"
  json_name_layout :: "jvalue option"

definition load_mapping :: "args \<Rightarrow> json_file \<Rightarrow> py_error + loaded" where
  "load_mapping a f =
     (let nothing = \<lparr>old_json_data = None, json_folder_layout = None, json_name_layout = None\<rparr> in
      if json a = None then Inr nothing
      else case f of
        Present None \<Rightarrow> Inl JSONDecodeError
      | Present (Some d) \<Rightarrow>
          (case dict_get d ''folder_layout'' of
             Inl e \<Rightarrow> Inl e
           | Inr fl \<Rightarrow>
               (case dict_get d ''name_layout'' of
                  Inl e \<Rightarrow> Inl e
                | Inr nl \<Rightarrow>
                    Inr \<lparr>old_json_data = Some d, json_folder_layout = fl, json_name_layout = nl\<rparr>))
      | Absent \<Rightarrow> Inr nothing
      | NoParent \<Rightarrow> Inl (SystemExit (Some ''The given json path is invalid.'')))"

text \<open>\<^verbatim>\<open>next((l["id"] for l in libraries if l["name"] == item), "")\<close>\<close>

fun id_of_library :: "library_rec list \<Rightarrow> string \<Rightarrow> string" where
  "id_of_library [] item = []"
| "id_of_library (l # ls) item =
     (if library_name l = item then library_id l else id_of_library ls item)"

text \<open>Lines 156 to 169.\<close>

fun filter_loop ::
  "library_rec list \<Rightarrow> string list \<Rightarrow> string list \<Rightarrow> 'srv state \<Rightarrow>
   (py_error \<times> 'srv state) + string list"
where
  "filter_loop libraries [] library_filter st = Inr library_filter"
| "filter_loop libraries (item # items) library_filter st =
     (if item \<notin> set (map library_name libraries)
      then Inl (SystemExit None, say (UnableToFindLibrary item) st)
      else filter_loop libraries items (library_filter @ [id_of_library libraries item]) st)"

definition make_library_filter ::
  "args \<Rightarrow> library_rec list \<Rightarrow> 'srv state \<Rightarrow> (py_error \<times> 'srv state) + string list"
where
  "make_library_filter a libraries st =
     (case library a of
        Some items \<Rightarrow> filter_loop libraries items [] st
      | None \<Rightarrow> Inr (map library_id libraries))"

text \<open>
  Lines 262 to 350: \<^verbatim>\<open>json_output\<close> starts as a deep copy of the active layout table, or
  empty; then the assets are classified and the bins reconciled.
\<close>

definition reconcile ::
  "'srv remote \<Rightarrow> args \<Rightarrow> loaded \<Rightarrow> library_rec list \<Rightarrow> string list \<Rightarrow>
   album_rec list \<Rightarrow> asset list \<Rightarrow> 'srv state \<Rightarrow> 'srv outcome"
where
  "reconcile R a l libraries library_filter albums assets st =
     (let album_names = map albumName albums;
          album_ids = map album_rec_id albums;
          sp = skip_paths_of a
      in
      if folder_layout a
      then
        let st1 = (case json_folder_layout l of
                     Some table \<Rightarrow> st\<lparr>json_output := table\<rparr>
                   | None \<Rightarrow> st)
        in folder_reconcile R a album_names album_ids (json_folder_layout l)
             (folder_classify library_filter sp assets []) st1
      else
        let st1 = (case json_name_layout l of
                     Some table \<Rightarrow> st\<lparr>json_output := table\<rparr>
                   | None \<Rightarrow> st)
        in library_reconcile R a libraries album_names album_ids (json_name_layout l)
             (library_classify library_filter sp assets []) st1)"

text \<open>Lines 352 to 364: the loaded document, or an empty one, gets the active table.\<close>

definition save_mapping :: "args \<Rightarrow> loaded \<Rightarrow> 'srv state \<Rightarrow> 'srv outcome" where
  "save_mapping a l st =
     (if json a = None then Inr st
      else
        let json_data = (case old_json_data l of Some d \<Rightarrow> d | None \<Rightarrow> JObj []) in
        case dict_update (if folder_layout a then ''folder_layout'' else ''name_layout'')
               (json_output st) json_data of
          Inl e \<Rightarrow> Inl (e, st)
        | Inr d \<Rightarrow> Inr (st\<lparr>stored := Present (Some d)\<rparr>))"

text \<open>
  The script from line 134 to its end, started on a server state \<open>srv\<close> with the mapping
  file in state \<open>f\<close>.
\<close>

definition run :: "'srv remote \<Rightarrow> args \<Rightarrow> json_file \<Rightarrow> 'srv \<Rightarrow> 'srv outcome" where
  "run R a f srv =
     (let st0 = \<lparr>server = srv, sent = [], printed = [], json_output = JObj [], stored = f\<rparr> in
      case load_mapping a f of
        Inl e \<Rightarrow> Inl (e, st0)
      | Inr l \<Rightarrow>
          (case get_libraries R (server st0) of (libraries, srv1) \<Rightarrow>
           let st1 = sending GetLibraries srv1 st0 in
           (case make_library_filter a libraries st1 of
              Inl e \<Rightarrow> Inl e
            | Inr library_filter \<Rightarrow>
                (case get_albums R (server st1) of (albums, srv2) \<Rightarrow>
                 let st2 = sending GetAlbums srv2 st1 in
                 (case get_assets R (server st2) of (assets, srv3) \<Rightarrow>
                  let st3 = sending GetAssets srv3 st2 in
                  (case reconcile R a l libraries library_filter albums assets st3 of
                     Inl e \<Rightarrow> Inl e
                   | Inr st4 \<Rightarrow> save_mapping a l st4))))))"

section \<open>A reference album service\<close>

text \<open>
  The remote album service is an external collaborator of the script; none of its code is in
  the repository. This model follows the interface of section 6 of the specification:
  libraries and assets are fixed, an album has an id, a name and a set of members, every call
  on an album that exists succeeds, adding a member that is already there and removing one
  that is not there report no success for that member. The order of the success flags is of
  no consequence to the script, which only counts them.
\<close>

record service =
  srv_libraries :: "library_rec list"
  srv_assets :: "asset list"
  srv_albums :: "(string \<times> string \<times> string set) list"

text \<open>An id that is longer than every id in use.\<close>

definition fresh_id :: "string list \<Rightarrow> string" where
  "fresh_id used = replicate (Suc (foldr (\<lambda>i m. max (length i) m) used 0)) (CHR ''A'')"

definition no_album :: "'a response" where
  "no_album = NotOk 400 ''Bad Request'' (MStr ''Not found or no album access'')"

definition service_remote :: "service remote" where
  "service_remote =
     \<lparr>get_libraries = (\<lambda>s. (srv_libraries s, s)),
      get_albums = (\<lambda>s. (map (\<lambda>(i, n, m). \<lparr>album_rec_id = i, albumName = n\<rparr>) (srv_albums s), s)),
      get_assets = (\<lambda>s. (srv_assets s, s)),
      post_album = (\<lambda>s n new.
         let i = fresh_id (map fst (srv_albums s))
         in (Ok i, s\<lparr>srv_albums := srv_albums s @ [(i, n, new)]\<rparr>)),
      put_assets = (\<lambda>s i new.
         case map_of (srv_albums s) i of
           None \<Rightarrow> (no_album, s)
         | Some (n, m) \<Rightarrow>
             (Ok (replicate (card (new - m)) True @ replicate (card (new \<inter> m)) False),
              s\<lparr>srv_albums := AList.update i (n, m \<union> new) (srv_albums s)\<rparr>)),
      get_album = (\<lambda>s i.
         case map_of (srv_albums s) i of
           None \<Rightarrow> (no_album, s)
         | Some (n, m) \<Rightarrow> (Ok m, s)),
      delete_assets = (\<lambda>s i old.
         case map_of (srv_albums s) i of
           None \<Rightarrow> (no_album, s)
         | Some (n, m) \<Rightarrow>
             (Ok (replicate (card (old \<inter> m)) True @ replicate (card (old - m)) False),
              s\<lparr>srv_albums := AList.update i (n, m - old) (srv_albums s)\<rparr>))\<rparr>"

text \<open>A service that is down: it lists nothing and refuses every other call.\<close>

definition refusal :: "'a response" where
  "refusal = NotOk 500 ''Internal Server Error'' (MStr ''down'')"

definition refusing_remote :: "unit remote" where
  "refusing_remote =
     \<lparr>get_libraries = (\<lambda>s. ([], s)),
      get_albums = (\<lambda>s. ([], s)),
      get_assets = (\<lambda>s. ([], s)),
      post_album = (\<lambda>s n new. (refusal, s)),
      put_assets = (\<lambda>s i new. (refusal, s)),
      get_album = (\<lambda>s i. (refusal, s)),
      delete_assets = (\<lambda>s i old. (refusal, s))\<rparr>"

section \<open>Auxiliary notions for the properties\<close>


text \<open>Three assets of one library, for the examples.\<close>

definition ex_assets :: "asset list" where
  "ex_assets =
     [\<lparr>asset_id = ''1'', libraryId = ''L1'', originalPath = ''/pics/trip/a.jpg''\<rparr>,
      \<lparr>asset_id = ''2'', libraryId = ''L1'', originalPath = ''/pics/trip/day1/b.jpg''\<rparr>,
      \<lparr>asset_id = ''3'', libraryId = ''L1'', originalPath = ''/pics/home/c.jpg''\<rparr>]"


text \<open>The state in which an outcome leaves the run, raised or not.\<close>

definition state_of :: "'srv outcome \<Rightarrow> 'srv state" where
  "state_of r = (case r of Inl (e, st) \<Rightarrow> st | Inr st \<Rightarrow> st)"

text \<open>The state in which the script starts (line 134).\<close>

definition start :: "'srv \<Rightarrow> json_file \<Rightarrow> 'srv state" where
  "start srv f = \<lparr>server = srv, sent = [], printed = [], json_output = JObj [], stored = f\<rparr>"

text \<open>
  The album a bin resolves to: the id its key has in the layout table, when that id is a
  string that is among the album ids fetched at the start of the run.
\<close>

definition bound_id :: "jvalue option \<Rightarrow> string list \<Rightarrow> string \<Rightarrow> string option" where
  "bound_id layout album_ids update_key =
     (case layout of
        None \<Rightarrow> None
      | Some table \<Rightarrow>
          (case get_item table update_key of
             Inr (JStr album_id) \<Rightarrow> if album_id \<in> set album_ids then Some album_id else None
           | _ \<Rightarrow> None))"

text \<open>
  Both reconcile loops are this loop over the label, the member set and the key of each bin.
\<close>

fun reconcile_all ::
  "'srv remote \<Rightarrow> args \<Rightarrow> string list \<Rightarrow> string list \<Rightarrow> jvalue option \<Rightarrow>
   (string \<times> string set \<times> string) list \<Rightarrow> 'srv state \<Rightarrow> 'srv outcome"
where
  "reconcile_all R a album_names album_ids layout [] st = Inr st"
| "reconcile_all R a album_names album_ids layout ((album_name, asset_ids, update_key) # rest) st =
     (case reconcile_bin R a album_names album_ids layout album_name asset_ids update_key st of
        Inl e \<Rightarrow> Inl e
      | Inr st' \<Rightarrow> reconcile_all R a album_names album_ids layout rest st')"

text \<open>One library with the three example assets and one album.\<close>

definition ex_service :: service where
  "ex_service =
     \<lparr>srv_libraries = [\<lparr>library_id = ''L1'', library_name = ''Library One''\<rparr>],
      srv_assets = ex_assets,
      srv_albums = [(''A1'', ''Library One'', {''1'', ''9''})]\<rparr>"

text \<open>Options for the examples: a mapping file is given, library mode, nothing skipped.\<close>

definition ex_args :: args where
  "ex_args = \<lparr>json = Some ''albums.json'', library = None, folder_layout = False,
              skip_paths = [], clean_update = False, skip_existing = False\<rparr>"

text \<open>The key of the table that a run rewrites (lines 358 to 361).\<close>

definition active_key :: "args \<Rightarrow> string" where
  "active_key a = (if folder_layout a then ''folder_layout'' else ''name_layout'')"

definition other_key :: "args \<Rightarrow> string" where
  "other_key a = (if folder_layout a then ''name_layout'' else ''folder_layout'')"

text \<open>The bins of a run, as the reconcile loop of the active mode sees them.\<close>

definition bins_of ::
  "args \<Rightarrow> library_rec list \<Rightarrow> string list \<Rightarrow> asset list \<Rightarrow> (string \<times> string set \<times> string) list"
where
  "bins_of a libraries library_filter assets =
     (if folder_layout a
      then map (\<lambda>(p, path_items). (stem p, path_items, path_str p))
             (folder_classify library_filter (skip_paths_of a) assets [])
      else map (\<lambda>(lib_id, items). (name_of_library libraries lib_id, ids items, lib_id))
             (library_classify library_filter (skip_paths_of a) assets []))"

definition active_layout :: "args \<Rightarrow> loaded \<Rightarrow> jvalue option" where
  "active_layout a l = (if folder_layout a then json_folder_layout l else json_name_layout l)"

text \<open>A mapping file with a table for each mode.\<close>

definition ex_doc :: "(string \<times> jvalue) list" where
  "ex_doc = [(''name_layout'', JObj [(''L1'', JStr ''A1'')]),
             (''folder_layout'', JObj [(''/pics/home'', JStr ''A1'')])]"

text \<open>An asset in a folder whose name has a dot in it.\<close>

definition ex_dotted :: "asset list" where
  "ex_dotted = [\<lparr>asset_id = ''1'', libraryId = ''L1'', originalPath = ''/pics/trip.2023/a.jpg''\<rparr>]"

text \<open>
  The paths that \<^verbatim>\<open>Path\<close> makes: one of the three roots, and components that are not empty,
  not a single dot and free of slashes.
\<close>

definition wf_path :: "path \<Rightarrow> bool" where
  "wf_path p \<longleftrightarrow>
     root p \<in> {'''', ''/'', ''//''} \<and>
     (\<forall>x \<in> set (parts p). x \<noteq> [] \<and> x \<noteq> ''.'' \<and> CHR ''/'' \<notin> set x)"

text \<open>What the example document loads as, and the album list of the example service.\<close>

definition ex_loaded :: loaded where
  "ex_loaded = \<lparr>old_json_data = Some (JObj ex_doc),
                json_folder_layout = Some (JObj [(''/pics/home'', JStr ''A1'')]),
                json_name_layout = Some (JObj [(''L1'', JStr ''A1'')])\<rparr>"

definition ex_albums :: "album_rec list" where
  "ex_albums = [\<lparr>album_rec_id = ''A1'', albumName = ''Library One''\<rparr>]"








definition ex_clean_args :: args where
  "ex_clean_args = ex_args\<lparr>clean_update := True\<rparr>"

section \<open>The classifier respects the skip paths\<close>







section \<open>Clean mode\<close>

lemma sent_say [simp]: "sent (say e st) = sent st"
  by (simp add: say_def)

lemma sent_sending [simp]: "sent (sending q srv' st) = sent st @ [q]"
  by (simp add: sending_def)

lemma server_say [simp]: "server (say e st) = server st"
  by (simp add: say_def)

lemma server_sending [simp]: "server (sending q srv' st) = srv'"
  by (simp add: sending_def)

lemma json_output_say [simp]: "json_output (say e st) = json_output st"
  by (simp add: say_def)

lemma json_output_sending [simp]: "json_output (sending q srv' st) = json_output st"
  by (simp add: sending_def)

lemma stored_say [simp]: "stored (say e st) = stored st"
  by (simp add: say_def)

lemma stored_sending [simp]: "stored (sending q srv' st) = stored st"
  by (simp add: sending_def)

lemma printed_say [simp]: "printed (say e st) = printed st @ [e]"
  by (simp add: say_def)

lemma printed_sending [simp]: "printed (sending q srv' st) = printed st"
  by (simp add: sending_def)

text \<open>The requests of \<^verbatim>\<open>clean_album\<close>: the fetch, and after a fetch that is ok the removal.\<close>

lemma sent_clean_album:
  "sent (clean_album R album_name asset_ids album_id st) =
     sent st @ GetAlbum album_id #
       (case fst (get_album R (server st) album_id) of
          Ok album_assets \<Rightarrow> [DeleteAssets album_id (album_assets - asset_ids)]
        | NotOk c r m \<Rightarrow> [])"
  by (simp add: clean_album_def Let_def split: prod.splits response.splits)

lemma json_output_clean_album [simp]:
  "json_output (clean_album R album_name asset_ids album_id st) = json_output st"
  by (simp add: clean_album_def Let_def split: prod.splits response.splits)

lemma stored_clean_album [simp]:
  "stored (clean_album R album_name asset_ids album_id st) = stored st"
  by (simp add: clean_album_def Let_def split: prod.splits response.splits)

text \<open>
  Claim C5 fails as stated. The album holds the assets 1 and 9 and so does the bin: the
  difference is empty, and the removal request is sent all the same, with no id in it.
\<close>

theorem removal_sent_for_empty_difference:
  "get_album service_remote (server (start ex_service Absent)) ''A1''
     = (Ok {''1'', ''9''}, ex_service) \<and>
   {''1'', ''9''} - {''1'', ''9''} = ({} :: string set) \<and>
   sent (clean_album service_remote ''Library One'' {''1'', ''9''} ''A1'' (start ex_service Absent))
     = [GetAlbum ''A1'', DeleteAssets ''A1'' {}]"
  by (simp add: sent_clean_album start_def ex_service_def service_remote_def)

text \<open>
  Claim C5 as amended. The requests of \<^verbatim>\<open>clean_album\<close> are the fetch of the album and,
  when the fetch is ok, one removal request with exactly the current members minus the
  computed member set, be that difference empty or not; when the fetch is not ok, no removal
  request follows.
\<close>

theorem clean_requests:
  "drop (length (sent st)) (sent (clean_album R album_name asset_ids album_id st)) =
     GetAlbum album_id #
       (case fst (get_album R (server st) album_id) of
          Ok album_assets \<Rightarrow> [DeleteAssets album_id (album_assets - asset_ids)]
        | NotOk status_code reason msg \<Rightarrow> [])"
  by (simp add: sent_clean_album)

section \<open>The body of the reconcile loops\<close>

lemma reconcile_bin_not_dict:
  "\<forall>al. json_output st \<noteq> JObj al \<Longrightarrow>
   reconcile_bin R a album_names album_ids layout album_name asset_ids update_key st
     = Inl (TypeError, st)"
  by (cases "json_output st") (simp_all add: reconcile_bin_def set_item_def)

lemma reconcile_bin_unbound:
  assumes "json_output st = JObj al" and "bound_id layout album_ids update_key = None"
  shows "reconcile_bin R a album_names album_ids layout album_name asset_ids update_key st =
         create_album R a album_names album_name asset_ids update_key
           (st\<lparr>json_output := JObj (AList.update update_key (JObj []) al)\<rparr>)"
  using assms
  by (auto simp: reconcile_bin_def set_item_def bound_id_def Let_def
           split: option.splits sum.splits jvalue.splits if_splits)

lemma reconcile_bin_bound:
  assumes "json_output st = JObj al" and "bound_id layout album_ids update_key = Some album_id"
  shows "reconcile_bin R a album_names album_ids layout album_name asset_ids update_key st =
         update_album R a album_ids album_name asset_ids album_id
           ((if clean_update a
             then clean_album R album_name asset_ids album_id
                    (st\<lparr>json_output := JObj (AList.update update_key (JObj []) al)\<rparr>)
             else st\<lparr>json_output := JObj (AList.update update_key (JObj []) al)\<rparr>)
            \<lparr>json_output := JObj (AList.update update_key (JStr album_id)
                                  (AList.update update_key (JObj []) al))\<rparr>)"
  using assms
  by (auto simp: reconcile_bin_def set_item_def dict_update_def bound_id_def Let_def
           split: option.splits sum.splits jvalue.splits if_splits)

text \<open>The layout table matters to a bin only through the album the bin resolves to.\<close>

lemma reconcile_bin_cong:
  assumes "bound_id layout album_ids update_key = bound_id layout' album_ids update_key"
  shows "reconcile_bin R a album_names album_ids layout album_name asset_ids update_key st =
         reconcile_bin R a album_names album_ids layout' album_name asset_ids update_key st"
proof (cases "\<exists>al. json_output st = JObj al")
  case False
  then show ?thesis by (simp add: reconcile_bin_not_dict)
next
  case True
  then obtain al where al: "json_output st = JObj al" by blast
  show ?thesis
  proof (cases "bound_id layout album_ids update_key")
    case None
    then have "bound_id layout' album_ids update_key = None" using assms by simp
    with None al show ?thesis by (simp add: reconcile_bin_unbound)
  next
    case (Some i)
    then have "bound_id layout' album_ids update_key = Some i" using assms by simp
    with Some al show ?thesis by (simp add: reconcile_bin_bound)
  qed
qed

text \<open>
  Claim C1. Let the layout table hold, for the key of a bin, an album id that is not among
  the album ids fetched at the start of the run. Then the bin is reconciled exactly as with
  a table that has no entry for the key, and exactly as with no table at all: the outcome,
  with the requests sent, the lines printed and the output mapping, is the same. The stale
  entry raises nothing and prints nothing: the outcome is that of \<^verbatim>\<open>create_album\<close>, with its
  skip-existing test, on the state in which the key holds the empty placeholder.
\<close>

theorem stale_entry_as_no_entry:
  assumes "get_item table update_key = Inr (JStr album_id)" and "album_id \<notin> set album_ids"
    and "get_item table' update_key = Inl KeyError"
  shows "reconcile_bin R a album_names album_ids (Some table) album_name asset_ids update_key st =
         reconcile_bin R a album_names album_ids (Some table') album_name asset_ids update_key st
       \<and> reconcile_bin R a album_names album_ids (Some table) album_name asset_ids update_key st =
         reconcile_bin R a album_names album_ids None album_name asset_ids update_key st
       \<and> (\<forall>al. json_output st = JObj al \<longrightarrow>
            reconcile_bin R a album_names album_ids (Some table) album_name asset_ids update_key st =
            create_album R a album_names album_name asset_ids update_key
              (st\<lparr>json_output := JObj (AList.update update_key (JObj []) al)\<rparr>))"
proof -
  have b: "bound_id (Some table) album_ids update_key = None"
    using assms by (simp add: bound_id_def)
  have b': "bound_id (Some table') album_ids update_key = None"
    using assms by (simp add: bound_id_def)
  have n: "bound_id None album_ids update_key = None"
    by (simp add: bound_id_def)
  have "reconcile_bin R a album_names album_ids (Some table) album_name asset_ids update_key st =
        reconcile_bin R a album_names album_ids (Some table') album_name asset_ids update_key st"
    by (rule reconcile_bin_cong) (simp add: b b')
  moreover
  have "reconcile_bin R a album_names album_ids (Some table) album_name asset_ids update_key st =
        reconcile_bin R a album_names album_ids None album_name asset_ids update_key st"
    by (rule reconcile_bin_cong) (simp add: b n)
  moreover
  have "reconcile_bin R a album_names album_ids (Some table) album_name asset_ids update_key st =
        create_album R a album_names album_name asset_ids update_key
          (st\<lparr>json_output := JObj (AList.update update_key (JObj []) al)\<rparr>)"
    if "json_output st = JObj al" for al
    using that b by (rule reconcile_bin_unbound)
  ultimately show ?thesis by blast
qed

section \<open>The loops and the whole run\<close>

lemma stored_create_album:
  "stored (state_of (create_album R a album_names album_name asset_ids update_key st)) = stored st"
  by (simp add: create_album_def state_of_def dict_update_def Let_def
           split: prod.splits response.splits sum.splits jvalue.splits)

lemma stored_update_album:
  "stored (state_of (update_album R a album_ids album_name asset_ids album_id st)) = stored st"
  by (simp add: update_album_def state_of_def Let_def
           split: prod.splits response.splits sum.splits)

lemma stored_reconcile_bin:
  "stored (state_of (reconcile_bin R a album_names album_ids layout album_name asset_ids update_key st))
     = stored st"
proof (cases "\<exists>al. json_output st = JObj al")
  case False
  then show ?thesis by (simp add: reconcile_bin_not_dict state_of_def)
next
  case True
  then obtain al where al: "json_output st = JObj al" by blast
  show ?thesis
    by (cases "bound_id layout album_ids update_key")
       (simp_all add: reconcile_bin_unbound [OF al] reconcile_bin_bound [OF al]
          stored_create_album stored_update_album)
qed

lemma state_of_Inr [simp]: "state_of (Inr st) = st"
  by (simp add: state_of_def)

lemma state_of_Inl [simp]: "state_of (Inl (e, st)) = st"
  by (simp add: state_of_def)

lemma stored_reconcile_all:
  "stored (state_of (reconcile_all R a album_names album_ids layout bins st)) = stored st"
proof (induction bins arbitrary: st)
  case Nil
  then show ?case by simp
next
  case (Cons b bins)
  obtain n m k where b: "b = (n, m, k)" by (cases b)
  show ?case
  proof (cases "reconcile_bin R a album_names album_ids layout n m k st")
    case (Inl e)
    with stored_reconcile_bin [of R a album_names album_ids layout n m k st] show ?thesis
      by (simp add: b)
  next
    case (Inr st')
    with stored_reconcile_bin [of R a album_names album_ids layout n m k st] Cons.IH [of st']
    show ?thesis by (simp add: b)
  qed
qed

lemma folder_reconcile_all:
  "folder_reconcile R a album_names album_ids layout bins st =
   reconcile_all R a album_names album_ids layout
     (map (\<lambda>(p, path_items). (stem p, path_items, path_str p)) bins) st"
  by (induction bins arbitrary: st) (auto split: sum.splits)

lemma library_reconcile_all:
  "library_reconcile R a libraries album_names album_ids layout bins st =
   reconcile_all R a album_names album_ids layout
     (map (\<lambda>(lib_id, items). (name_of_library libraries lib_id, ids items, lib_id)) bins) st"
  by (induction bins arbitrary: st) (auto split: sum.splits)

lemma reconcile_eq:
  "reconcile R a l libraries library_filter albums assets st =
   reconcile_all R a (map albumName albums) (map album_rec_id albums) (active_layout a l)
     (bins_of a libraries library_filter assets)
     (case active_layout a l of Some table \<Rightarrow> st\<lparr>json_output := table\<rparr> | None \<Rightarrow> st)"
  by (simp add: reconcile_def bins_of_def active_layout_def Let_def
        folder_reconcile_all library_reconcile_all)

lemma run_Inr:
  assumes "run R a f srv = Inr st"
  obtains l libraries srv1 library_filter albums srv2 assets srv3 st4 where
    "load_mapping a f = Inr l"
    "get_libraries R srv = (libraries, srv1)"
    "make_library_filter a libraries (sending GetLibraries srv1 (start srv f)) = Inr library_filter"
    "get_albums R srv1 = (albums, srv2)"
    "get_assets R srv2 = (assets, srv3)"
    "reconcile R a l libraries library_filter albums assets
       (sending GetAssets srv3 (sending GetAlbums srv2 (sending GetLibraries srv1 (start srv f))))
     = Inr st4"
    "save_mapping a l st4 = Inr st"
  using assms
  by (auto simp: run_def start_def Let_def split: sum.splits prod.splits)

lemma load_mapping_Present:
  assumes "load_mapping a (Present (Some (JObj doc))) = Inr l" and "json a \<noteq> None"
  shows "old_json_data l = Some (JObj doc)"
  using assms by (auto simp: load_mapping_def dict_get_def Let_def split: sum.splits)

lemma stored_reconcile:
  "stored (state_of (reconcile R a l libraries library_filter albums assets st)) = stored st"
  by (simp add: reconcile_eq stored_reconcile_all split: option.splits)

text \<open>
  Claim C9. When a run that loaded the document \<open>doc\<close> ends with the save, the document
  written is \<open>doc\<close> with the table of the active mode replaced by the output mapping: the
  table of the other mode, as every other key, is written back unchanged.
\<close>

theorem save_rewrites_active_table_only:
  assumes "run R a (Present (Some (JObj doc))) srv = Inr st" and "json a \<noteq> None"
  shows "\<exists>doc'. stored st = Present (Some (JObj doc')) \<and>
           doc' = AList.update (active_key a) (json_output st) doc \<and>
           map_of doc' (active_key a) = Some (json_output st) \<and>
           map_of doc' (other_key a) = map_of doc (other_key a) \<and>
           (\<forall>k. k \<noteq> active_key a \<longrightarrow> map_of doc' k = map_of doc k)"
proof -
  from assms(1) obtain l st4 where
    l: "load_mapping a (Present (Some (JObj doc))) = Inr l" and
    s: "save_mapping a l st4 = Inr st"
    by (rule run_Inr)
  from l assms(2) have "old_json_data l = Some (JObj doc)"
    by (rule load_mapping_Present)
  with s assms(2) have
    "stored st = Present (Some (JObj (AList.update (active_key a) (json_output st4) doc)))"
    "json_output st = json_output st4"
    by (auto simp: save_mapping_def dict_update_def active_key_def Let_def)
  moreover have "other_key a \<noteq> active_key a"
    by (simp add: other_key_def active_key_def)
  ultimately show ?thesis
    by (simp add: update_conv')
qed

text \<open>
  A library-mode run on the example document: the folder table is written back as it was.
\<close>

theorem save_rewrites_active_table_only_witness:
  "run service_remote ex_args (Present (Some (JObj ex_doc))) ex_service =
     Inr (state_of (run service_remote ex_args (Present (Some (JObj ex_doc))) ex_service)) \<and>
   json ex_args \<noteq> None \<and>
   stored (state_of (run service_remote ex_args (Present (Some (JObj ex_doc))) ex_service)) =
     Present (Some (JObj (AList.update (active_key ex_args)
       (json_output (state_of (run service_remote ex_args (Present (Some (JObj ex_doc))) ex_service)))
       ex_doc))) \<and>
   map_of (AList.update (active_key ex_args)
       (json_output (state_of (run service_remote ex_args (Present (Some (JObj ex_doc))) ex_service)))
       ex_doc) (other_key ex_args) = Some (JObj [(''/pics/home'', JStr ''A1'')])"
proof -
  have r: "run service_remote ex_args (Present (Some (JObj ex_doc))) ex_service =
     Inr (state_of (run service_remote ex_args (Present (Some (JObj ex_doc))) ex_service))"
    by code_simp
  have j: "json ex_args \<noteq> None"
    by (simp add: ex_args_def)
  have d: "map_of ex_doc (other_key ex_args) = Some (JObj [(''/pics/home'', JStr ''A1'')])"
    by (simp add: ex_doc_def other_key_def ex_args_def)
  from save_rewrites_active_table_only [OF r j] d r j show ?thesis
    by auto
qed

text \<open>
  The table holds the album \<open>GONE\<close> for the library, the server has the album \<open>A1\<close> only:
  the bin is reconciled as without an entry, by a create.
\<close>

theorem stale_entry_as_no_entry_witness:
  "get_item (JObj [(''L1'', JStr ''GONE'')]) ''L1'' = Inr (JStr ''GONE'') \<and>
   ''GONE'' \<notin> set [''A1''] \<and>
   get_item (JObj []) ''L1'' = Inl KeyError \<and>
   reconcile_bin service_remote ex_args [''Library One''] [''A1'']
       (Some (JObj [(''L1'', JStr ''GONE'')])) ''Library One'' {''1''} ''L1''
       (start ex_service Absent) =
     reconcile_bin service_remote ex_args [''Library One''] [''A1'']
       (Some (JObj [])) ''Library One'' {''1''} ''L1'' (start ex_service Absent) \<and>
   reconcile_bin service_remote ex_args [''Library One''] [''A1'']
       (Some (JObj [(''L1'', JStr ''GONE'')])) ''Library One'' {''1''} ''L1''
       (start ex_service Absent) =
     reconcile_bin service_remote ex_args [''Library One''] [''A1'']
       None ''Library One'' {''1''} ''L1'' (start ex_service Absent) \<and>
   reconcile_bin service_remote ex_args [''Library One''] [''A1'']
       (Some (JObj [(''L1'', JStr ''GONE'')])) ''Library One'' {''1''} ''L1''
       (start ex_service Absent) =
     create_album service_remote ex_args [''Library One''] ''Library One'' {''1''} ''L1''
       ((start ex_service Absent)\<lparr>json_output := JObj [(''L1'', JObj [])]\<rparr>)"
proof -
  have h1: "get_item (JObj [(''L1'', JStr ''GONE'')]) ''L1'' = Inr (JStr ''GONE'')"
    by (simp add: get_item_def)
  have h2: "''GONE'' \<notin> set [''A1'']"
    by simp
  have h3: "get_item (JObj []) ''L1'' = Inl KeyError"
    by (simp add: get_item_def)
  have out: "json_output (start ex_service Absent) = JObj []"
    by (simp add: start_def)
  have upd: "AList.update ''L1'' (JObj []) [] = [(''L1'', JObj [])]"
    by simp
  from stale_entry_as_no_entry
    [OF h1 h2 h3, of service_remote ex_args "[''Library One'']" "''Library One''" "{''1''}"
       "start ex_service Absent"]
  show ?thesis
    using h1 h2 h3 out upd by metis
qed

section \<open>The label of a folder bin\<close>

text \<open>
  Claim C7 on the code. The label of a folder bin is \<^verbatim>\<open>path.stem\<close>, which drops the last
  suffix of the folder's name: for an asset in \<open>/pics/trip.2023\<close> the last component of the
  folder is \<open>trip.2023\<close>, and the album is created and reported under the label \<open>trip\<close>.
\<close>

theorem folder_label_drops_suffix:
  "name (parent (Path ''/pics/trip.2023/a.jpg'')) = ''trip.2023'' \<and>
   last (parts (parent (Path ''/pics/trip.2023/a.jpg''))) = ''trip.2023'' \<and>
   folder_classify [''L1''] \<lparr>direct = [], recursive = []\<rparr> ex_dotted [] =
     [(PurePath ''/'' [''pics'', ''trip.2023''], {''1''})] \<and>
   sent (state_of (folder_reconcile service_remote ex_args [''Library One''] [''A1''] None
          (folder_classify [''L1''] \<lparr>direct = [], recursive = []\<rparr> ex_dotted [])
          (start ex_service Absent))) = [PostAlbum ''trip'' {''1''}] \<and>
   printed (state_of (folder_reconcile service_remote ex_args [''Library One''] [''A1''] None
          (folder_classify [''L1''] \<lparr>direct = [], recursive = []\<rparr> ex_dotted [])
          (start ex_service Absent))) = [CreatedAlbum ''trip'' 1]"
  by code_simp

section \<open>Loading the mapping file\<close>

text \<open>
  Claim C8 fails as stated for a file that is there and is not JSON: \<^verbatim>\<open>json.load\<close> raises, no
  empty table is made of it, and the run ends there.
\<close>

theorem malformed_file_raises:
  "json ex_args \<noteq> None \<and>
   load_mapping ex_args (Present None) = Inl JSONDecodeError \<and>
   run service_remote ex_args (Present None) ex_service =
     Inl (JSONDecodeError, start ex_service (Present None))"
  by (simp add: ex_args_def load_mapping_def run_def start_def)

text \<open>
  Claim C8 as amended. With a mapping path given: a file that is absent while its directory
  exists loads as no table at all, so that no bin is bound and the output mapping starts
  empty; an absent file in a directory that does not exist ends the run with the message of
  line 143, before any request is sent; a file that is there and is not JSON ends the run
  with the decoder's error, before any request is sent.
\<close>

theorem load_of_absent_or_malformed_file:
  assumes "json a \<noteq> None"
  shows "load_mapping a Absent =
           Inr \<lparr>old_json_data = None, json_folder_layout = None, json_name_layout = None\<rparr> \<and>
         bound_id (active_layout a
           \<lparr>old_json_data = None, json_folder_layout = None, json_name_layout = None\<rparr>)
           album_ids update_key = None \<and>
         json_output (start srv Absent) = JObj [] \<and>
         run R a NoParent srv =
           Inl (SystemExit (Some ''The given json path is invalid.''), start srv NoParent) \<and>
         sent (start srv NoParent) = [] \<and>
         run R a (Present None) srv = Inl (JSONDecodeError, start srv (Present None)) \<and>
         sent (start srv (Present None)) = []"
  using assms
  by (auto simp: load_mapping_def run_def start_def bound_id_def active_layout_def Let_def)

theorem load_of_absent_or_malformed_file_witness:
  "json ex_args \<noteq> None \<and>
   load_mapping ex_args Absent =
     Inr \<lparr>old_json_data = None, json_folder_layout = None, json_name_layout = None\<rparr> \<and>
   run service_remote ex_args NoParent ex_service =
     Inl (SystemExit (Some ''The given json path is invalid.''), start ex_service NoParent) \<and>
   sent (start ex_service NoParent) = [] \<and>
   run service_remote ex_args (Present None) ex_service =
     Inl (JSONDecodeError, start ex_service (Present None))"
  using load_of_absent_or_malformed_file [of ex_args "[]" "[]" ex_service service_remote]
  by (simp add: ex_args_def)

section \<open>Refused calls\<close>

lemma json_output_update_album [simp]:
  "json_output (state_of (update_album R a album_ids album_name asset_ids album_id st))
     = json_output st"
  by (simp add: update_album_def state_of_def Let_def
           split: prod.splits response.splits sum.splits)

lemma json_output_create_album:
  assumes "json_output st = JObj al"
  shows "json_output (state_of (create_album R a album_names album_name asset_ids update_key st))
           = JObj al \<or>
         (\<exists>new_id. json_output (state_of (create_album R a album_names album_name asset_ids
                       update_key st)) = JObj (AList.update update_key (JStr new_id) al))"
  using assms
  by (auto simp: create_album_def state_of_def dict_update_def Let_def
           split: prod.splits response.splits sum.splits)








section \<open>Bin keys are pairwise different\<close>

lemma split_sep_no_sep: "w \<in> set (split_sep s) \<Longrightarrow> CHR ''/'' \<notin> set w"
  by (induction s arbitrary: w) (auto split: if_splits list.splits)

lemma splitroot_root: "fst (splitroot s) \<in> {'''', ''/'', ''//''}"
proof -
  have "take 2 s = ''//''" if "take 1 s = ''/''" "take 1 (drop 1 s) = ''/''"
    using that by (cases s; cases "tl s") auto
  then show ?thesis
    by (auto simp: splitroot_def)
qed

lemma wf_Path: "wf_path (Path s)"
  using splitroot_root [of s]
  by (auto simp: wf_path_def Path_def split: prod.splits dest: split_sep_no_sep)

lemma wf_parent: "wf_path p \<Longrightarrow> wf_path (parent p)"
  by (auto simp: wf_path_def parent_def dest: in_set_butlastD)

text \<open>Joined components: not empty, no slash in front, and the components can be read back.\<close>

lemma join_sep_Cons: "join_sep (x # xs) = x @ (if xs = [] then [] else CHR ''/'' # join_sep xs)"
  by (cases xs) auto

lemma takeWhile_until:
  "c \<notin> set x \<Longrightarrow> A = [] \<or> hd A = c \<Longrightarrow> takeWhile (\<lambda>d. d \<noteq> c) (x @ A) = x"
  by (induction x) (auto, cases A, auto)

lemma cut_at_sep:
  assumes "CHR ''/'' \<notin> set x" "CHR ''/'' \<notin> set y"
    and "A = [] \<or> hd A = CHR ''/''" "B = [] \<or> hd B = CHR ''/''"
    and "x @ A = y @ B"
  shows "x = y \<and> A = B"
proof -
  have tx: "takeWhile (\<lambda>c. c \<noteq> CHR ''/'') (x @ A) = x"
    using assms(1,3) by (rule takeWhile_until)
  have ty: "takeWhile (\<lambda>c. c \<noteq> CHR ''/'') (y @ B) = y"
    using assms(2,4) by (rule takeWhile_until)
  from tx ty assms(5) have "x = y" by simp
  with assms(5) show ?thesis by simp
qed

lemma join_sep_inj:
  assumes "\<forall>x \<in> set xs. x \<noteq> [] \<and> CHR ''/'' \<notin> set x"
    and "\<forall>y \<in> set ys. y \<noteq> [] \<and> CHR ''/'' \<notin> set y"
    and "join_sep xs = join_sep ys"
  shows "xs = ys"
  using assms
proof (induction xs arbitrary: ys)
  case Nil
  then show ?case by (cases ys) (auto simp: join_sep_Cons)
next
  case (Cons x xs)
  show ?case
  proof (cases ys)
    case Nil
    with Cons.prems show ?thesis by (auto simp: join_sep_Cons)
  next
    case (Cons y ys')
    let ?A = "if xs = [] then [] else CHR ''/'' # join_sep xs"
    let ?B = "if ys' = [] then [] else CHR ''/'' # join_sep ys'"
    have eq: "x @ ?A = y @ ?B"
      using Cons.prems(3) Cons by (simp add: join_sep_Cons)
    have "x = y \<and> ?A = ?B"
      by (rule cut_at_sep [OF _ _ _ _ eq]) (use Cons.prems Cons in auto)
    then have xy: "x = y" and AB: "?A = ?B" by blast+
    have "xs = ys'"
    proof (cases "xs = []")
      case True
      with AB show ?thesis by (auto split: if_splits)
    next
      case False
      with AB have "ys' \<noteq> []" "join_sep xs = join_sep ys'" by (auto split: if_splits)
      with Cons.IH [of ys'] Cons.prems Cons show ?thesis by auto
    qed
    with xy Cons show ?thesis by simp
  qed
qed

lemma join_sep_hd:
  assumes "\<forall>x \<in> set xs. x \<noteq> [] \<and> CHR ''/'' \<notin> set x" and "xs \<noteq> []"
  shows "join_sep xs \<noteq> [] \<and> hd (join_sep xs) \<noteq> CHR ''/''"
proof (cases xs)
  case Nil
  with assms show ?thesis by simp
next
  case (Cons x xs')
  with assms have "x \<noteq> []" "CHR ''/'' \<notin> set x" by auto
  then have "hd x \<noteq> CHR ''/''"
    by (cases x) auto
  with \<open>x \<noteq> []\<close> Cons show ?thesis
    by (simp add: join_sep_Cons)
qed

lemma join_sep_dot:
  assumes "\<forall>x \<in> set xs. x \<noteq> [] \<and> x \<noteq> ''.'' \<and> CHR ''/'' \<notin> set x"
  shows "join_sep xs \<noteq> ''.''"
proof
  assume d: "join_sep xs = ''.''"
  show False
  proof (cases xs)
    case Nil
    with d show ?thesis by simp
  next
    case (Cons x xs')
    with d have "x @ (if xs' = [] then [] else CHR ''/'' # join_sep xs') = ''.''"
      by (simp add: join_sep_Cons)
    with assms Cons show ?thesis
      by (cases x) (auto split: if_splits)
  qed
qed

lemma path_str_inj:
  assumes "wf_path p" "wf_path q" "path_str p = path_str q"
  shows "p = q"
proof -
  let ?P = "\<lambda>xs. \<forall>x \<in> set xs. x \<noteq> [] \<and> CHR ''/'' \<notin> set x"
  have wp: "?P (parts p)" and wq: "?P (parts q)"
    using assms(1,2) by (auto simp: wf_path_def)
  have dp: "join_sep (parts p) \<noteq> ''.''" and dq: "join_sep (parts q) \<noteq> ''.''"
    using assms(1,2) by (auto simp: wf_path_def intro!: join_sep_dot)
  have hp: "parts p \<noteq> [] \<Longrightarrow> join_sep (parts p) \<noteq> [] \<and> hd (join_sep (parts p)) \<noteq> CHR ''/''"
    using join_sep_hd [OF wp] by simp
  have hq: "parts q \<noteq> [] \<Longrightarrow> join_sep (parts q) \<noteq> [] \<and> hd (join_sep (parts q)) \<noteq> CHR ''/''"
    using join_sep_hd [OF wq] by simp
  have rp: "root p \<in> {'''', ''/'', ''//''}" and rq: "root q \<in> {'''', ''/'', ''//''}"
    using assms(1,2) by (auto simp: wf_path_def)
  have "root p = root q \<and> join_sep (parts p) = join_sep (parts q)"
    using assms(3) rp rq dp dq hp hq
    by (cases "parts p = []"; cases "parts q = []";
        cases "join_sep (parts p)"; cases "join_sep (parts q)")
       (auto simp: path_str_def Let_def split: if_splits)
  with join_sep_inj [OF wp wq] show ?thesis
    by (simp add: path.expand)
qed

lemma keys_add_to_bin:
  "map fst (add_to_bin k i bins) =
     (if k \<in> set (map fst bins) then map fst bins else map fst bins @ [k])"
  by (induction k i bins rule: add_to_bin.induct) auto

lemma keys_add_to_lib:
  "map fst (add_to_lib k p i bins) =
     (if k \<in> set (map fst bins) then map fst bins else map fst bins @ [k])"
  by (induction k p i bins rule: add_to_lib.induct) auto

lemma distinct_folder_classify:
  "distinct (map fst acc) \<Longrightarrow> distinct (map fst (folder_classify lf sp as acc))"
  by (induction lf sp as acc rule: folder_classify.induct)
     (auto simp: keys_add_to_bin Let_def)

lemma distinct_library_classify:
  "distinct (map fst acc) \<Longrightarrow> distinct (map fst (library_classify lf sp as acc))"
  by (induction lf sp as acc rule: library_classify.induct)
     (auto simp: keys_add_to_lib Let_def)

lemma wf_folder_classify:
  "\<forall>p \<in> set (map fst acc). wf_path p \<Longrightarrow>
   \<forall>p \<in> set (map fst (folder_classify lf sp as acc)). wf_path p"
proof (induction lf sp as acc rule: folder_classify.induct)
  case (1 lf sp acc)
  then show ?case by simp
next
  case (2 lf sp a as acc)
  have "\<forall>p \<in> set (map fst (add_to_bin (parent (Path (originalPath a))) (asset_id a) acc)). wf_path p"
    using "2.prems" by (auto simp: keys_add_to_bin wf_parent wf_Path)
  with 2 show ?case
    by (simp add: Let_def)
qed

lemma distinct_bin_keys:
  "distinct (map (snd \<circ> snd) (bins_of a libraries library_filter assets))"
proof (cases "folder_layout a")
  case True
  let ?bins = "folder_classify library_filter (skip_paths_of a) assets []"
  have d: "distinct (map fst ?bins)"
    by (rule distinct_folder_classify) simp
  have w: "\<forall>p \<in> set (map fst ?bins). wf_path p"
    by (rule wf_folder_classify) simp
  have i: "inj_on path_str (set (map fst ?bins))"
    using w by (auto intro!: inj_onI path_str_inj)
  have "distinct (map path_str (map fst ?bins))"
    unfolding distinct_map [of path_str "map fst ?bins"] using d i by blast
  moreover have "map (snd \<circ> snd) (bins_of a libraries library_filter assets) =
      map path_str (map fst ?bins)"
    using True by (simp add: bins_of_def comp_def case_prod_beta)
  ultimately show ?thesis by simp
next
  case False
  let ?bins = "library_classify library_filter (skip_paths_of a) assets []"
  have d: "distinct (map fst ?bins)"
    by (rule distinct_library_classify) simp
  moreover have "map (snd \<circ> snd) (bins_of a libraries library_filter assets) = map fst ?bins"
    using False by (simp add: bins_of_def comp_def case_prod_beta)
  ultimately show ?thesis by simp
qed

section \<open>Bound bins are recorded\<close>

text \<open>What a bin does to the output mapping: it rewrites the entry of its own key.\<close>

lemma json_output_reconcile_bin:
  assumes "json_output st = JObj al"
  shows "\<exists>v. json_output (state_of (reconcile_bin R a album_names album_ids layout
                 album_name asset_ids update_key st)) = JObj (AList.update update_key v al)"
proof (cases "bound_id layout album_ids update_key")
  case None
  let ?st0 = "st\<lparr>json_output := JObj (AList.update update_key (JObj []) al)\<rparr>"
  have "json_output ?st0 = JObj (AList.update update_key (JObj []) al)" by simp
  from json_output_create_album [OF this, of R a album_names album_name asset_ids update_key]
  show ?thesis
    by (auto simp: reconcile_bin_unbound [OF assms None])
next
  case (Some i)
  show ?thesis
    by (simp add: reconcile_bin_bound [OF assms Some]) blast
qed

lemma json_output_reconcile_bin_bound:
  assumes "json_output st = JObj al" and "bound_id layout album_ids update_key = Some album_id"
  shows "json_output (state_of (reconcile_bin R a album_names album_ids layout
           album_name asset_ids update_key st)) = JObj (AList.update update_key (JStr album_id) al)"
  by (simp add: reconcile_bin_bound [OF assms])

lemma reconcile_bin_Inr_dict:
  assumes "reconcile_bin R a album_names album_ids layout album_name asset_ids update_key st = Inr st'"
  shows "\<exists>al. json_output st = JObj al"
proof (rule ccontr)
  assume "\<not> (\<exists>al. json_output st = JObj al)"
  then have "\<forall>al. json_output st \<noteq> JObj al" by blast
  from reconcile_bin_not_dict [OF this] assms show False by simp
qed

lemma json_output_reconcile_all:
  assumes "reconcile_all R a album_names album_ids layout bins st = Inr st'"
    and "json_output st = JObj al"
  shows "\<exists>al'. json_output st' = JObj al' \<and>
           (\<forall>k. k \<notin> set (map (snd \<circ> snd) bins) \<longrightarrow> map_of al' k = map_of al k)"
  using assms
proof (induction bins arbitrary: st al)
  case Nil
  then show ?case by simp
next
  case (Cons b bins)
  obtain n m k where b: "b = (n, m, k)" by (cases b)
  from Cons.prems(1) obtain st1 where
    one: "reconcile_bin R a album_names album_ids layout n m k st = Inr st1" and
    rest: "reconcile_all R a album_names album_ids layout bins st1 = Inr st'"
    by (auto simp: b split: sum.splits)
  from json_output_reconcile_bin [OF Cons.prems(2), of R a album_names album_ids layout n m k] one
  obtain v where v: "json_output st1 = JObj (AList.update k v al)" by auto
  from Cons.IH [OF rest v] obtain al' where
    "json_output st' = JObj al'"
    "\<forall>k'. k' \<notin> set (map (snd \<circ> snd) bins) \<longrightarrow> map_of al' k' = map_of (AList.update k v al) k'"
    by blast
  then show ?case
    by (auto simp: b update_conv')
qed

lemma bound_entry_reconcile_all:
  assumes "reconcile_all R a album_names album_ids layout bins st = Inr st'"
    and "distinct (map (snd \<circ> snd) bins)"
    and "(album_name, asset_ids, update_key) \<in> set bins"
    and "bound_id layout album_ids update_key = Some album_id"
  shows "\<exists>al'. json_output st' = JObj al' \<and> map_of al' update_key = Some (JStr album_id)"
  using assms(1,2,3)
proof (induction bins arbitrary: st)
  case Nil
  then show ?case by simp
next
  case (Cons b bins)
  obtain n m k where b: "b = (n, m, k)" by (cases b)
  from Cons.prems(1) obtain st1 where
    one: "reconcile_bin R a album_names album_ids layout n m k st = Inr st1" and
    rest: "reconcile_all R a album_names album_ids layout bins st1 = Inr st'"
    by (auto simp: b split: sum.splits)
  from reconcile_bin_Inr_dict [OF one] obtain al where al: "json_output st = JObj al" by blast
  show ?case
  proof (cases "(album_name, asset_ids, update_key) \<in> set bins")
    case True
    from Cons.prems(2) have "distinct (map (snd \<circ> snd) bins)" by (simp add: comp_def)
    from Cons.IH [OF rest this True] show ?thesis .
  next
    case False
    with Cons.prems(3) have e: "n = album_name" "m = asset_ids" "k = update_key"
      by (auto simp: b)
    from json_output_reconcile_bin_bound [OF al assms(4), of R a album_names album_name asset_ids] one e
    have o1: "json_output st1 = JObj (AList.update update_key (JStr album_id) al)" by simp
    from Cons.prems(2) e have notin: "update_key \<notin> set (map (snd \<circ> snd) bins)"
      by (auto simp: b comp_def)
    from json_output_reconcile_all [OF rest o1] notin show ?thesis
      by (auto simp: update_conv')
  qed
qed

text \<open>
  Claim C10. Let a bin of the run resolve as bound: the active layout table holds for its key
  an album id that is among the ids of the albums fetched at the start. Then, whenever the
  reconciliation of lines 262 to 350 completes, its output mapping holds that album id for
  the key, whatever the remote answers and whether or not skip-existing is set. Moreover the
  entry is written before the update: the state in which the bin's own step ends, also when
  the update is skipped, is refused or raises, holds the album id for the key.
\<close>

theorem bound_bin_is_recorded:
  assumes "bound_id (active_layout a l) (map album_rec_id albums) update_key = Some album_id"
    and "(album_name, asset_ids, update_key) \<in> set (bins_of a libraries library_filter assets)"
  shows "(\<forall>st'. reconcile R a l libraries library_filter albums assets st = Inr st' \<longrightarrow>
            get_item (json_output st') update_key = Inr (JStr album_id)) \<and>
         (\<forall>st al. json_output st = JObj al \<longrightarrow>
            get_item (json_output (state_of (reconcile_bin R a (map albumName albums)
              (map album_rec_id albums) (active_layout a l) album_name asset_ids update_key st)))
              update_key = Inr (JStr album_id))"
proof (intro conjI allI impI)
  fix st'
  assume "reconcile R a l libraries library_filter albums assets st = Inr st'"
  then have "reconcile_all R a (map albumName albums) (map album_rec_id albums)
     (active_layout a l) (bins_of a libraries library_filter assets)
     (case active_layout a l of Some table \<Rightarrow> st\<lparr>json_output := table\<rparr> | None \<Rightarrow> st) = Inr st'"
    by (simp add: reconcile_eq)
  from bound_entry_reconcile_all [OF this distinct_bin_keys assms(2,1)]
  show "get_item (json_output st') update_key = Inr (JStr album_id)"
    by (auto simp: get_item_def)
next
  fix st :: "'a state" and al
  assume "json_output st = JObj al"
  from json_output_reconcile_bin_bound [OF this assms(1)]
  show "get_item (json_output (state_of (reconcile_bin R a (map albumName albums)
              (map album_rec_id albums) (active_layout a l) album_name asset_ids update_key st)))
              update_key = Inr (JStr album_id)"
    by (simp add: get_item_def update_conv')
qed

text \<open>
  The library's bin is bound to \<open>A1\<close> and the service refuses the add request: the failure
  is printed and the output mapping holds \<open>A1\<close> for the library.
\<close>

theorem bound_bin_is_recorded_witness:
  "bound_id (active_layout ex_args ex_loaded) (map album_rec_id ex_albums) ''L1'' = Some ''A1'' \<and>
   (''Library One'', {''1''}, ''L1'') \<in>
      set (bins_of ex_args (srv_libraries ex_service) [''L1''] ex_dotted) \<and>
   reconcile refusing_remote ex_args ex_loaded (srv_libraries ex_service) [''L1''] ex_albums
       ex_dotted (start () Absent) =
     Inr (state_of (reconcile refusing_remote ex_args ex_loaded (srv_libraries ex_service)
       [''L1''] ex_albums ex_dotted (start () Absent))) \<and>
   printed (state_of (reconcile refusing_remote ex_args ex_loaded (srv_libraries ex_service)
       [''L1''] ex_albums ex_dotted (start () Absent))) =
     [UpdatingFailed ''Library One'' 500 ''Internal Server Error'', PrintedText ''down''] \<and>
   get_item (json_output (state_of (reconcile refusing_remote ex_args ex_loaded
       (srv_libraries ex_service) [''L1''] ex_albums ex_dotted (start () Absent)))) ''L1'' =
     Inr (JStr ''A1'')"
proof -
  have b: "bound_id (active_layout ex_args ex_loaded) (map album_rec_id ex_albums) ''L1'' = Some ''A1''"
    by code_simp
  have m: "(''Library One'', {''1''}, ''L1'') \<in>
      set (bins_of ex_args (srv_libraries ex_service) [''L1''] ex_dotted)"
    by code_simp
  have r: "reconcile refusing_remote ex_args ex_loaded (srv_libraries ex_service) [''L1''] ex_albums
       ex_dotted (start () Absent) =
     Inr (state_of (reconcile refusing_remote ex_args ex_loaded (srv_libraries ex_service)
       [''L1''] ex_albums ex_dotted (start () Absent)))"
    by code_simp
  have p: "printed (state_of (reconcile refusing_remote ex_args ex_loaded (srv_libraries ex_service)
       [''L1''] ex_albums ex_dotted (start () Absent))) =
     [UpdatingFailed ''Library One'' 500 ''Internal Server Error'', PrintedText ''down'']"
    by code_simp
  from bound_bin_is_recorded [OF b m, of refusing_remote "start () Absent"] r
  have "get_item (json_output (state_of (reconcile refusing_remote ex_args ex_loaded
       (srv_libraries ex_service) [''L1''] ex_albums ex_dotted (start () Absent)))) ''L1'' =
     Inr (JStr ''A1'')"
    by blast
  with b m r p show ?thesis by blast
qed

section \<open>Running twice\<close>

lemma count_success_eq: "count_success flags count = count + length (filter (\<lambda>b. b) flags)"
  by (induction flags arbitrary: count) auto

lemma count_success_replicate [simp]:
  "count_success (replicate x True @ replicate y False) 0 = x"
  by (simp add: count_success_eq)

lemma length_le_longest:
  "x \<in> set used \<Longrightarrow> length x \<le> foldr (\<lambda>i m. max (length i) m) used 0"
  by (induction used) auto

lemma fresh_id_new: "fresh_id used \<notin> set used"
proof
  assume "fresh_id used \<in> set used"
  then have "length (fresh_id used) \<le> foldr (\<lambda>i m. max (length i) m) used 0"
    by (rule length_le_longest)
  then show False by (simp add: fresh_id_def)
qed





lemma map_of_fresh:
  "map_of (xs @ [(fresh_id (map fst xs), v)]) j =
     (if j = fresh_id (map fst xs) then Some v else map_of xs j)"
proof -
  have "map_of xs (fresh_id (map fst xs)) = None"
    using fresh_id_new [of "map fst xs"] by (simp add: map_of_eq_None_iff)
  then show ?thesis
    by (auto simp: map_add_def split: option.splits)
qed



















section \<open>Removal requests of a bin\<close>

lemma sent_create_album:
  "sent (state_of (create_album R a album_names album_name asset_ids update_key st)) =
     sent st @ (if skip_existing a \<and> json a = None \<and> album_name \<in> set album_names then []
                else [PostAlbum album_name asset_ids])"
  by (simp add: create_album_def state_of_def dict_update_def Let_def
           split: prod.splits response.splits sum.splits jvalue.splits)

lemma sent_update_album:
  "sent (state_of (update_album R a album_ids album_name asset_ids album_id st)) =
     sent st @ (if skip_existing a \<and> album_id \<in> set album_ids then []
                else [PutAssets album_id asset_ids])"
  by (simp add: update_album_def state_of_def Let_def
           split: prod.splits response.splits sum.splits)

lemma sent_reconcile_bin:
  "\<exists>reqs. sent (state_of (reconcile_bin R a album_names album_ids layout album_name asset_ids
               update_key st)) = sent st @ reqs \<and>
          (\<forall>q \<in> set reqs. \<forall>i removal. q = DeleteAssets i removal \<longrightarrow>
             removal \<inter> asset_ids = {})"
proof (cases "\<exists>al. json_output st = JObj al")
  case False
  then show ?thesis by (simp add: reconcile_bin_not_dict)
next
  case True
  then obtain al where al: "json_output st = JObj al" by blast
  show ?thesis
  proof (cases "bound_id layout album_ids update_key")
    case None
    show ?thesis
      by (simp add: reconcile_bin_unbound [OF al None] sent_create_album)
  next
    case (Some i)
    show ?thesis
      by (cases "fst (get_album R (server st) i)")
         (auto simp: reconcile_bin_bound [OF al Some] sent_update_album sent_clean_album)
  qed
qed

text \<open>
  Claim C4. Every removal request that \<^verbatim>\<open>clean_album\<close> sends for a bin carries a set that
  has no element in common with the bin's freshly computed member set \<open>asset_ids\<close>: the set
  is the album's current members, as the fetch returned them, minus \<open>asset_ids\<close>, whatever
  the album holds. And whatever removal request is sent while a bin is reconciled, in clean
  mode or not, has no element of the bin's member set in it.
\<close>

theorem clean_removes_no_member:
  "(\<forall>q \<in> set (drop (length (sent st)) (sent (clean_album R album_name asset_ids album_id st))).
      \<forall>i removal. q = DeleteAssets i removal \<longrightarrow>
        removal \<inter> asset_ids = {} \<and>
        (\<exists>album_assets srv'. get_album R (server st) album_id = (Ok album_assets, srv') \<and>
           removal = album_assets - asset_ids)) \<and>
   (\<forall>q \<in> set (drop (length (sent st)) (sent (state_of (reconcile_bin R a album_names album_ids
                 layout album_name asset_ids update_key st)))).
      \<forall>i removal. q = DeleteAssets i removal \<longrightarrow> removal \<inter> asset_ids = {})"
proof
  show "\<forall>q \<in> set (drop (length (sent st)) (sent (clean_album R album_name asset_ids album_id st))).
      \<forall>i removal. q = DeleteAssets i removal \<longrightarrow>
        removal \<inter> asset_ids = {} \<and>
        (\<exists>album_assets srv'. get_album R (server st) album_id = (Ok album_assets, srv') \<and>
           removal = album_assets - asset_ids)"
    by (cases "get_album R (server st) album_id")
       (auto simp: sent_clean_album split: response.splits)
  from sent_reconcile_bin [of R a album_names album_ids layout album_name asset_ids update_key st]
  obtain reqs where
    "sent (state_of (reconcile_bin R a album_names album_ids layout album_name asset_ids
               update_key st)) = sent st @ reqs"
    "\<forall>q \<in> set reqs. \<forall>i removal. q = DeleteAssets i removal \<longrightarrow> removal \<inter> asset_ids = {}"
    by blast
  then show "\<forall>q \<in> set (drop (length (sent st)) (sent (state_of (reconcile_bin R a album_names
                 album_ids layout album_name asset_ids update_key st)))).
      \<forall>i removal. q = DeleteAssets i removal \<longrightarrow> removal \<inter> asset_ids = {}"
    by simp
qed

text \<open>
  The album holds the assets 1 and 9, the bin holds 1: the removal request carries 9, from
  \<^verbatim>\<open>clean_album\<close> alone and from the bin's whole step.
\<close>

theorem clean_removes_no_member_witness:
  "drop (length (sent (start ex_service Absent)))
     (sent (clean_album service_remote ''Library One'' {''1''} ''A1'' (start ex_service Absent)))
     = [GetAlbum ''A1'', DeleteAssets ''A1'' {''9''}] \<and>
   {''9''} \<inter> {''1''} = ({} :: string set) \<and>
   get_album service_remote (server (start ex_service Absent)) ''A1''
     = (Ok {''1'', ''9''}, ex_service) \<and>
   {''9''} = {''1'', ''9''} - {''1'' :: string} \<and>
   drop (length (sent (start ex_service Absent)))
     (sent (state_of (reconcile_bin service_remote ex_clean_args [''Library One''] [''A1'']
        (Some (JObj [(''L1'', JStr ''A1'')])) ''Library One'' {''1''} ''L1''
        (start ex_service Absent))))
     = [GetAlbum ''A1'', DeleteAssets ''A1'' {''9''}, PutAssets ''A1'' {''1''}]"
proof -
  have s: "drop (length (sent (start ex_service Absent)))
     (sent (clean_album service_remote ''Library One'' {''1''} ''A1'' (start ex_service Absent)))
     = [GetAlbum ''A1'', DeleteAssets ''A1'' {''9''}]"
    by (simp add: sent_clean_album start_def ex_service_def service_remote_def)
  have b: "drop (length (sent (start ex_service Absent)))
     (sent (state_of (reconcile_bin service_remote ex_clean_args [''Library One''] [''A1'']
        (Some (JObj [(''L1'', JStr ''A1'')])) ''Library One'' {''1''} ''L1''
        (start ex_service Absent))))
     = [GetAlbum ''A1'', DeleteAssets ''A1'' {''9''}, PutAssets ''A1'' {''1''}]"
    by code_simp
  have g: "get_album service_remote (server (start ex_service Absent)) ''A1''
     = (Ok {''1'', ''9''}, ex_service)"
    by (simp add: start_def ex_service_def service_remote_def)
  from clean_removes_no_member
    [of "start ex_service Absent" service_remote "''Library One''" "{''1''}" "''A1''"
        ex_clean_args "[''Library One'']" "[''A1'']" "Some (JObj [(''L1'', JStr ''A1'')])" "''L1''"]
  have "{''9''} \<inter> {''1''} = ({} :: string set)"
    unfolding s b by simp
  moreover have "{''9''} = {''1'', ''9''} - {''1'' :: string}"
    by auto
  ultimately show ?thesis
    using s b g by blast
qed

end
